theory Spec2Isabelle
  imports Main
begin

section \<open>The preprocessor environment of \<open>cups/base.h\<close>\<close>

text \<open>
  \<open>cups/base.h\<close> is a header of conditional macro definitions. What it computes is
  decided by the names the preprocessor sees when the header is read: the names that
  the compiler predefines and the names the build passes in. The record below holds
  exactly the names the header tests.

  \<^item> \<open>has_extension\<close>: \<^verbatim>\<open>__has_extension\<close> is defined (line 41);
    \<open>ext_deprecated_with_message\<close> and \<open>ext_unavailable_with_message\<close> are the values
    of \<^verbatim>\<open>__has_extension(attribute_deprecated_with_message)\<close> and of
    \<^verbatim>\<open>__has_extension(attribute_unavailable_with_message)\<close> (lines 46 and 49);
  \<^item> \<open>GNUC\<close>, \<open>GNUC_MINOR\<close>: the values of \<^verbatim>\<open>__GNUC__\<close> and
    \<^verbatim>\<open>__GNUC_MINOR__\<close>, \<open>None\<close> when the name is not defined;
  \<^item> \<open>WIN32\<close>, \<open>APPLE\<close>, \<open>CUPS_SOURCE\<close>, \<open>CUPS_NO_DEPRECATED\<close>,
    \<open>LIBCUPS2_EXPORTS\<close>: \<^verbatim>\<open>_WIN32\<close>, \<^verbatim>\<open>__APPLE__\<close>, \<^verbatim>\<open>_CUPS_SOURCE\<close>,
    \<^verbatim>\<open>_CUPS_NO_DEPRECATED\<close>, \<^verbatim>\<open>LIBCUPS2_EXPORTS\<close> are defined.

  The \<^verbatim>\<open>_CUPS_HAS_...\<close> names are the header's own: they are taken to be
  undefined before the header is read, and \<^verbatim>\<open>__attribute__\<close> is taken not to be a
  macro before the header is read.
\<close>

record cpp_env =
  has_extension :: bool
  ext_deprecated_with_message :: bool
  ext_unavailable_with_message :: bool
  GNUC :: "int option"
  GNUC_MINOR :: "int option"
  WIN32 :: bool
  APPLE :: bool
  CUPS_SOURCE :: bool
  CUPS_NO_DEPRECATED :: bool
  LIBCUPS2_EXPORTS :: bool

text \<open>In an \<^verbatim>\<open>#if\<close> expression a name that is not a macro has the value 0.\<close>

fun cpp_value :: "int option \<Rightarrow> int" where
  "cpp_value None = 0"
| "cpp_value (Some v) = v"

section \<open>The capability detector (lines 41 to 67)\<close>

text \<open>
  The names the first block of the header may define. \<open>ATTRIBUTE_NOTHING\<close> stands for
  line 66, \<^verbatim>\<open>#define __attribute__(...)\<close>: a function-like macro with an empty
  replacement list.
\<close>

datatype macro =
  CUPS_HAS_DEPRECATED
| CUPS_HAS_FORMAT
| CUPS_HAS_NORETURN
| CUPS_HAS_VISIBILITY
| CUPS_HAS_DEPRECATED_WITH_MESSAGE
| CUPS_HAS_UNAVAILABLE_WITH_MESSAGE
| CUPS_HAS_NONNULL
| ATTRIBUTE_NOTHING

text \<open>
  The list of the names defined by lines 41 to 67, in the order of the
  \<^verbatim>\<open>#define\<close> lines that are reached.
\<close>

definition detect :: "cpp_env \<Rightarrow> macro list" where
  "detect e =
    (if has_extension e then
       [CUPS_HAS_DEPRECATED, CUPS_HAS_FORMAT, CUPS_HAS_NORETURN, CUPS_HAS_VISIBILITY]
       @ (if ext_deprecated_with_message e then [CUPS_HAS_DEPRECATED_WITH_MESSAGE] else [])
       @ (if ext_unavailable_with_message e then [CUPS_HAS_UNAVAILABLE_WITH_MESSAGE] else [])
     else if GNUC e \<noteq> None then
       (if cpp_value (GNUC e) \<ge> 3 then
          [CUPS_HAS_DEPRECATED, CUPS_HAS_FORMAT, CUPS_HAS_NORETURN, CUPS_HAS_VISIBILITY]
        else [])
       @ (if cpp_value (GNUC e) \<ge> 5 then [CUPS_HAS_DEPRECATED_WITH_MESSAGE]
          else if cpp_value (GNUC e) = 4 \<and> cpp_value (GNUC_MINOR e) \<ge> 5 then
            [CUPS_HAS_DEPRECATED_WITH_MESSAGE]
          else [])
     else if WIN32 e then [ATTRIBUTE_NOTHING]
     else [])"

text \<open>\<^verbatim>\<open>defined(X)\<close> and \<^verbatim>\<open>#ifdef X\<close> for a name of the header, after line 67.\<close>

definition is_defined :: "macro \<Rightarrow> cpp_env \<Rightarrow> bool" where
  "is_defined x e = (x \<in> set (detect e))"

section \<open>Replacement lists\<close>

text \<open>
  The replacement lists of the header are sequences of attribute specifiers
  \<^verbatim>\<open>__attribute__ ((...))\<close>, of \<^verbatim>\<open>__declspec(dllexport)\<close> and of the name
  \<^verbatim>\<open>_CUPS_PUBLIC\<close>. A message argument is the text of the argument (a string); the
  positions given to \<^verbatim>\<open>_CUPS_FORMAT\<close> and \<^verbatim>\<open>_CUPS_NONNULL\<close> are integers.
\<close>

datatype attribute =
  Visibility string
| Deprecated
| Deprecated_msg string
| Unavailable
| Unavailable_msg string
| Format_printf int int
| Nonnull "int list"
| Noreturn

datatype token =
  Attribute attribute
| Declspec_dllexport
| Macro_PUBLIC

section \<open>The visibility macros (lines 75 to 87)\<close>

text \<open>
  The three macros are defined together, by one conditional. Its second arm is
  \<^verbatim>\<open>#elif defined(_WIN32) && defined(LIBCUPS2_EXPORTS) && 0\<close>: the constant 0 of the
  source is the \<open>False\<close> below.
\<close>

datatype visibility_arm = Arm_visibility | Arm_declspec | Arm_plain

definition visibility_arm :: "cpp_env \<Rightarrow> visibility_arm" where
  "visibility_arm e =
    (if is_defined CUPS_HAS_VISIBILITY e then Arm_visibility
     else if WIN32 e \<and> LIBCUPS2_EXPORTS e \<and> False then Arm_declspec
     else Arm_plain)"

definition CUPS_INTERNAL :: "cpp_env \<Rightarrow> token list" where
  "CUPS_INTERNAL e =
    (case visibility_arm e of
       Arm_visibility \<Rightarrow> [Attribute (Visibility ''hidden'')]
     | Arm_declspec \<Rightarrow> []
     | Arm_plain \<Rightarrow> [])"

definition CUPS_PRIVATE :: "cpp_env \<Rightarrow> token list" where
  "CUPS_PRIVATE e =
    (case visibility_arm e of
       Arm_visibility \<Rightarrow> [Attribute (Visibility ''default'')]
     | Arm_declspec \<Rightarrow> [Declspec_dllexport]
     | Arm_plain \<Rightarrow> [])"

definition CUPS_PUBLIC :: "cpp_env \<Rightarrow> token list" where
  "CUPS_PUBLIC e =
    (case visibility_arm e of
       Arm_visibility \<Rightarrow> [Attribute (Visibility ''default'')]
     | Arm_declspec \<Rightarrow> [Declspec_dllexport]
     | Arm_plain \<Rightarrow> [])"

section \<open>The deprecation macros (lines 99 to 126)\<close>

text \<open>
  \<^verbatim>\<open>_CUPS_DEPRECATED\<close> and \<^verbatim>\<open>_CUPS_DEPRECATED_MSG(m)\<close> are defined together by a
  conditional of five arms, named here by the line of the source that opens them.
\<close>

datatype deprecated_arm = Arm_99 | Arm_103 | Arm_108 | Arm_113 | Arm_118

definition deprecated_arm :: "cpp_env \<Rightarrow> deprecated_arm" where
  "deprecated_arm e =
    (if \<not> is_defined CUPS_HAS_DEPRECATED e \<or> (CUPS_SOURCE e \<and> \<not> CUPS_NO_DEPRECATED e)
       then Arm_99
     else if APPLE e \<and> CUPS_NO_DEPRECATED e then Arm_103
     else if APPLE e then Arm_108
     else if is_defined CUPS_HAS_UNAVAILABLE_WITH_MESSAGE e \<and> CUPS_NO_DEPRECATED e
       then Arm_113
     else Arm_118)"

definition CUPS_DEPRECATED :: "cpp_env \<Rightarrow> token list" where
  "CUPS_DEPRECATED e =
    (case deprecated_arm e of
       Arm_99 \<Rightarrow> [Macro_PUBLIC]
     | Arm_103 \<Rightarrow> [Attribute Unavailable, Macro_PUBLIC]
     | Arm_108 \<Rightarrow> [Attribute Deprecated, Macro_PUBLIC]
     | Arm_113 \<Rightarrow> [Attribute Unavailable, Macro_PUBLIC]
     | Arm_118 \<Rightarrow> [Attribute Deprecated, Macro_PUBLIC])"

definition CUPS_DEPRECATED_MSG :: "cpp_env \<Rightarrow> string \<Rightarrow> token list" where
  "CUPS_DEPRECATED_MSG e m =
    (case deprecated_arm e of
       Arm_99 \<Rightarrow> [Macro_PUBLIC]
     | Arm_103 \<Rightarrow> [Attribute (Unavailable_msg m), Macro_PUBLIC]
     | Arm_108 \<Rightarrow> [Attribute (Deprecated_msg m), Macro_PUBLIC]
     | Arm_113 \<Rightarrow> [Attribute (Unavailable_msg m), Macro_PUBLIC]
     | Arm_118 \<Rightarrow>
         (if is_defined CUPS_HAS_DEPRECATED_WITH_MESSAGE e then
            [Attribute (Deprecated_msg m), Macro_PUBLIC]
          else [Attribute Deprecated, Macro_PUBLIC]))"

section \<open>The other macros (lines 133 to 178)\<close>

definition CUPS_FORMAT :: "cpp_env \<Rightarrow> int \<Rightarrow> int \<Rightarrow> token list" where
  "CUPS_FORMAT e a b =
    (if is_defined CUPS_HAS_FORMAT e then [Attribute (Format_printf a b)] else [])"

definition CUPS_INTERNAL_MSG :: "cpp_env \<Rightarrow> string \<Rightarrow> token list" where
  "CUPS_INTERNAL_MSG e m =
    (if CUPS_SOURCE e then [Macro_PUBLIC]
     else if is_defined CUPS_HAS_UNAVAILABLE_WITH_MESSAGE e then
       [Attribute (Unavailable_msg m), Macro_PUBLIC]
     else if is_defined CUPS_HAS_DEPRECATED_WITH_MESSAGE e then
       [Attribute (Deprecated_msg m), Macro_PUBLIC]
     else [Attribute Deprecated, Macro_PUBLIC])"

definition CUPS_NONNULL :: "cpp_env \<Rightarrow> int list \<Rightarrow> token list" where
  "CUPS_NONNULL e args =
    (if is_defined CUPS_HAS_NONNULL e then [Attribute (Nonnull args)] else [])"

definition CUPS_NORETURN :: "cpp_env \<Rightarrow> token list" where
  "CUPS_NORETURN e =
    (if is_defined CUPS_HAS_NORETURN e then [Attribute Noreturn] else [])"

section \<open>Expansion\<close>

text \<open>
  A replacement list is rescanned after substitution: the name \<^verbatim>\<open>_CUPS_PUBLIC\<close> is
  replaced by its own replacement list, and, where line 66 has made
  \<^verbatim>\<open>__attribute__\<close> a macro with an empty replacement list, every
  \<^verbatim>\<open>__attribute__ ((...))\<close> is replaced by nothing.
\<close>

fun is_attribute :: "token \<Rightarrow> bool" where
  "is_attribute (Attribute a) = True"
| "is_attribute Declspec_dllexport = False"
| "is_attribute Macro_PUBLIC = False"

fun subst_PUBLIC :: "cpp_env \<Rightarrow> token \<Rightarrow> token list" where
  "subst_PUBLIC e Macro_PUBLIC = CUPS_PUBLIC e"
| "subst_PUBLIC e (Attribute a) = [Attribute a]"
| "subst_PUBLIC e Declspec_dllexport = [Declspec_dllexport]"

definition rescan_attribute :: "cpp_env \<Rightarrow> token list \<Rightarrow> token list" where
  "rescan_attribute e ts =
    (if is_defined ATTRIBUTE_NOTHING e then filter (\<lambda>t. \<not> is_attribute t) ts else ts)"

definition expand :: "cpp_env \<Rightarrow> token list \<Rightarrow> token list" where
  "expand e ts = rescan_attribute e (concat (map (subst_PUBLIC e) ts))"

text \<open>
  A deprecation or unavailability construct: one of the attributes
  \<^verbatim>\<open>deprecated\<close>, \<^verbatim>\<open>deprecated(m)\<close>, \<^verbatim>\<open>unavailable\<close>, \<^verbatim>\<open>unavailable(m)\<close>.
\<close>

fun is_deprecation :: "token \<Rightarrow> bool" where
  "is_deprecation (Attribute Deprecated) = True"
| "is_deprecation (Attribute (Deprecated_msg m)) = True"
| "is_deprecation (Attribute Unavailable) = True"
| "is_deprecation (Attribute (Unavailable_msg m)) = True"
| "is_deprecation t = False"

section \<open>Toolchains used as examples\<close>

text \<open>No name that the header tests is defined: the unknown toolchain, no switch set.\<close>

definition unknown_toolchain :: cpp_env where
  "unknown_toolchain =
    \<lparr> has_extension = False, ext_deprecated_with_message = False,
      ext_unavailable_with_message = False, GNUC = None, GNUC_MINOR = None,
      WIN32 = False, APPLE = False, CUPS_SOURCE = False, CUPS_NO_DEPRECATED = False,
      LIBCUPS2_EXPORTS = False \<rparr>"

text \<open>A compiler with \<^verbatim>\<open>__has_extension\<close> and both named extensions.\<close>

definition clang_toolchain :: cpp_env where
  "clang_toolchain = unknown_toolchain
    \<lparr> has_extension := True, ext_deprecated_with_message := True,
      ext_unavailable_with_message := True \<rparr>"

text \<open>GCC with the given version.\<close>

definition gcc_toolchain :: "int \<Rightarrow> int \<Rightarrow> cpp_env" where
  "gcc_toolchain major minor = unknown_toolchain
    \<lparr> GNUC := Some major, GNUC_MINOR := Some minor \<rparr>"

text \<open>The compiler of the Win32 platform: only \<^verbatim>\<open>_WIN32\<close> is defined.\<close>

definition win32_toolchain :: cpp_env where
  "win32_toolchain = unknown_toolchain \<lparr> WIN32 := True \<rparr>"

section \<open>What the detector defines\<close>

lemma is_defined_base:
  "is_defined CUPS_HAS_DEPRECATED e =
    (has_extension e \<or> (GNUC e \<noteq> None \<and> 3 \<le> cpp_value (GNUC e)))"
  "is_defined CUPS_HAS_FORMAT e =
    (has_extension e \<or> (GNUC e \<noteq> None \<and> 3 \<le> cpp_value (GNUC e)))"
  "is_defined CUPS_HAS_NORETURN e =
    (has_extension e \<or> (GNUC e \<noteq> None \<and> 3 \<le> cpp_value (GNUC e)))"
  "is_defined CUPS_HAS_VISIBILITY e =
    (has_extension e \<or> (GNUC e \<noteq> None \<and> 3 \<le> cpp_value (GNUC e)))"
  by (simp_all add: is_defined_def detect_def)

lemma is_defined_DEPRECATED_WITH_MESSAGE:
  "is_defined CUPS_HAS_DEPRECATED_WITH_MESSAGE e =
    (if has_extension e then ext_deprecated_with_message e
     else GNUC e \<noteq> None \<and>
       (5 \<le> cpp_value (GNUC e) \<or>
        (cpp_value (GNUC e) = 4 \<and> 5 \<le> cpp_value (GNUC_MINOR e))))"
  by (simp add: is_defined_def detect_def)

lemma is_defined_UNAVAILABLE_WITH_MESSAGE:
  "is_defined CUPS_HAS_UNAVAILABLE_WITH_MESSAGE e =
    (has_extension e \<and> ext_unavailable_with_message e)"
  by (simp add: is_defined_def detect_def)

lemma is_defined_NONNULL: "is_defined CUPS_HAS_NONNULL e = False"
  by (simp add: is_defined_def detect_def)

lemma is_defined_ATTRIBUTE_NOTHING:
  "is_defined ATTRIBUTE_NOTHING e = (\<not> has_extension e \<and> GNUC e = None \<and> WIN32 e)"
  by (simp add: is_defined_def detect_def)

lemmas is_defined_simps = is_defined_base is_defined_DEPRECATED_WITH_MESSAGE
  is_defined_UNAVAILABLE_WITH_MESSAGE is_defined_NONNULL is_defined_ATTRIBUTE_NOTHING

lemmas toolchain_defs = unknown_toolchain_def clang_toolchain_def gcc_toolchain_def
  win32_toolchain_def

lemmas macro_defs = visibility_arm_def CUPS_INTERNAL_def CUPS_PRIVATE_def CUPS_PUBLIC_def
  deprecated_arm_def CUPS_DEPRECATED_def CUPS_DEPRECATED_MSG_def CUPS_FORMAT_def
  CUPS_INTERNAL_MSG_def CUPS_NONNULL_def CUPS_NORETURN_def

lemmas expand_defs = expand_def rescan_attribute_def

text \<open>
  Line 66 is reached only when none of the capability names is defined: a toolchain
  with a capability keeps its attributes through the rescan.
\<close>

lemma capability_keeps_attribute:
  assumes "is_defined x e" and "x \<noteq> ATTRIBUTE_NOTHING"
  shows "\<not> is_defined ATTRIBUTE_NOTHING e"
  using assms by (auto simp: is_defined_def detect_def split: if_splits)

lemma expand_without_PUBLIC:
  assumes "\<not> is_defined ATTRIBUTE_NOTHING e" and "Macro_PUBLIC \<notin> set ts"
  shows "expand e ts = ts"
  using assms(2)
proof (induction ts)
  case Nil
  show ?case using assms(1) by (simp add: expand_defs)
next
  case (Cons t ts)
  then have "expand e ts = ts" and "t \<noteq> Macro_PUBLIC" by auto
  then show ?case using assms(1) by (cases t) (simp_all add: expand_defs)
qed

text \<open>
  Where line 66 has emptied \<^verbatim>\<open>__attribute__\<close>, no attribute is left in any
  expansion.
\<close>

lemma expand_ATTRIBUTE_NOTHING:
  assumes "is_defined ATTRIBUTE_NOTHING e"
  shows "filter is_attribute (expand e ts) = []"
  using assms by (simp add: expand_defs)

text \<open>
  The guard of line 99: without \<^verbatim>\<open>_CUPS_HAS_DEPRECATED\<close> the two deprecation macros
  are \<^verbatim>\<open>_CUPS_PUBLIC\<close> alone.
\<close>

lemma deprecated_without_capability:
  assumes "\<not> is_defined CUPS_HAS_DEPRECATED e"
  shows "CUPS_DEPRECATED e = [Macro_PUBLIC] \<and> CUPS_DEPRECATED_MSG e m = [Macro_PUBLIC]"
  using assms by (simp add: CUPS_DEPRECATED_def CUPS_DEPRECATED_MSG_def deprecated_arm_def)

section \<open>Deprecation and the capability flags\<close>

text \<open>
  C1. The claim: in every environment where \<^verbatim>\<open>_CUPS_HAS_DEPRECATED\<close> is not defined,
  the expansions of \<^verbatim>\<open>_CUPS_DEPRECATED\<close>, \<^verbatim>\<open>_CUPS_DEPRECATED_MSG\<close> and
  \<^verbatim>\<open>_CUPS_INTERNAL_MSG\<close> hold no deprecation or unavailability construct and are the
  Public marker alone. The conditional of lines 147 to 155 never tests
  \<^verbatim>\<open>_CUPS_HAS_DEPRECATED\<close>. On the unknown toolchain, where no capability is defined
  and \<^verbatim>\<open>__attribute__\<close> is not emptied, \<^verbatim>\<open>_CUPS_INTERNAL_MSG("use X")\<close> is
  \<^verbatim>\<open>__attribute__ ((deprecated)) _CUPS_PUBLIC\<close>, which expands to the deprecated
  attribute, whereas the Public marker expands to nothing.
\<close>

theorem C1_internal_msg_unknown_toolchain:
  "\<not> is_defined CUPS_HAS_DEPRECATED unknown_toolchain \<and>
   CUPS_INTERNAL_MSG unknown_toolchain ''use X'' = [Attribute Deprecated, Macro_PUBLIC] \<and>
   expand unknown_toolchain (CUPS_INTERNAL_MSG unknown_toolchain ''use X'')
     = [Attribute Deprecated] \<and>
   list_ex is_deprecation
     (expand unknown_toolchain (CUPS_INTERNAL_MSG unknown_toolchain ''use X'')) \<and>
   expand unknown_toolchain [Macro_PUBLIC] = []"
  by (simp add: is_defined_simps macro_defs expand_defs toolchain_defs)

section \<open>Building the library's own source\<close>

text \<open>
  C2, as amended. When \<^verbatim>\<open>_CUPS_SOURCE\<close> is defined, \<^verbatim>\<open>_CUPS_INTERNAL_MSG(m)\<close> is
  the Public marker alone whatever else is defined; \<^verbatim>\<open>_CUPS_DEPRECATED\<close> and
  \<^verbatim>\<open>_CUPS_DEPRECATED_MSG(m)\<close> are the Public marker alone exactly when
  \<^verbatim>\<open>_CUPS_NO_DEPRECATED\<close> is not defined or \<^verbatim>\<open>_CUPS_HAS_DEPRECATED\<close> is not
  defined.
\<close>

theorem C2_own_source:
  assumes "CUPS_SOURCE e"
  shows "CUPS_INTERNAL_MSG e m = [Macro_PUBLIC] \<and>
    ((CUPS_DEPRECATED e = [Macro_PUBLIC]) =
       (\<not> CUPS_NO_DEPRECATED e \<or> \<not> is_defined CUPS_HAS_DEPRECATED e)) \<and>
    ((CUPS_DEPRECATED_MSG e m = [Macro_PUBLIC]) =
       (\<not> CUPS_NO_DEPRECATED e \<or> \<not> is_defined CUPS_HAS_DEPRECATED e))"
proof -
  have "CUPS_INTERNAL_MSG e m = [Macro_PUBLIC]"
    using assms by (simp add: CUPS_INTERNAL_MSG_def)
  moreover have "(deprecated_arm e = Arm_99) =
      (\<not> CUPS_NO_DEPRECATED e \<or> \<not> is_defined CUPS_HAS_DEPRECATED e)"
    using assms by (auto simp: deprecated_arm_def)
  moreover have "(CUPS_DEPRECATED e = [Macro_PUBLIC]) = (deprecated_arm e = Arm_99)"
    by (cases "deprecated_arm e") (simp_all add: CUPS_DEPRECATED_def)
  moreover have "(CUPS_DEPRECATED_MSG e m = [Macro_PUBLIC]) = (deprecated_arm e = Arm_99)"
    by (cases "deprecated_arm e") (simp_all add: CUPS_DEPRECATED_MSG_def)
  ultimately show ?thesis by simp
qed

theorem C2_own_source_witness:
  "CUPS_SOURCE (clang_toolchain \<lparr> CUPS_SOURCE := True \<rparr>) \<and>
   CUPS_INTERNAL_MSG (clang_toolchain \<lparr> CUPS_SOURCE := True \<rparr>) ''use X'' = [Macro_PUBLIC] \<and>
   CUPS_DEPRECATED (clang_toolchain \<lparr> CUPS_SOURCE := True \<rparr>) = [Macro_PUBLIC] \<and>
   CUPS_DEPRECATED_MSG (clang_toolchain \<lparr> CUPS_SOURCE := True \<rparr>) ''use X'' = [Macro_PUBLIC]"
  using C2_own_source [of "clang_toolchain \<lparr> CUPS_SOURCE := True \<rparr>" "''use X''"]
  by (simp add: toolchain_defs)

text \<open>
  C2 as it was stated fails: with \<^verbatim>\<open>_CUPS_SOURCE\<close> and \<^verbatim>\<open>_CUPS_NO_DEPRECATED\<close> both
  defined, on a compiler with \<^verbatim>\<open>__has_extension\<close> and both named extensions, the
  guard of line 99 is false, and line 115 makes \<^verbatim>\<open>_CUPS_DEPRECATED\<close> the unavailable
  attribute followed by the Public marker.
\<close>

theorem C2_own_source_counterexample:
  "CUPS_SOURCE (clang_toolchain \<lparr> CUPS_SOURCE := True, CUPS_NO_DEPRECATED := True \<rparr>) \<and>
   CUPS_DEPRECATED (clang_toolchain \<lparr> CUPS_SOURCE := True, CUPS_NO_DEPRECATED := True \<rparr>)
     = [Attribute Unavailable, Macro_PUBLIC] \<and>
   CUPS_DEPRECATED (clang_toolchain \<lparr> CUPS_SOURCE := True, CUPS_NO_DEPRECATED := True \<rparr>)
     \<noteq> [Macro_PUBLIC] \<and>
   CUPS_DEPRECATED_MSG
       (clang_toolchain \<lparr> CUPS_SOURCE := True, CUPS_NO_DEPRECATED := True \<rparr>) ''use X''
     = [Attribute (Unavailable_msg ''use X''), Macro_PUBLIC] \<and>
   expand (clang_toolchain \<lparr> CUPS_SOURCE := True, CUPS_NO_DEPRECATED := True \<rparr>)
       (CUPS_DEPRECATED (clang_toolchain \<lparr> CUPS_SOURCE := True, CUPS_NO_DEPRECATED := True \<rparr>))
     \<noteq> expand (clang_toolchain \<lparr> CUPS_SOURCE := True, CUPS_NO_DEPRECATED := True \<rparr>)
       [Macro_PUBLIC]"
  by (simp add: is_defined_simps macro_defs expand_defs toolchain_defs)

section \<open>The export-table arm\<close>

text \<open>
  C3, as amended. The arm of line 79 is never taken, whatever is defined, since its
  condition ends in \<^verbatim>\<open>&& 0\<close>. So where \<^verbatim>\<open>_CUPS_HAS_VISIBILITY\<close> is not defined,
  on Win32 with \<^verbatim>\<open>LIBCUPS2_EXPORTS\<close> defined as anywhere else, \<^verbatim>\<open>_CUPS_PUBLIC\<close> and
  \<^verbatim>\<open>_CUPS_PRIVATE\<close> are empty, and so are their expansions.
\<close>

theorem C3_no_export_marker:
  "visibility_arm e \<noteq> Arm_declspec \<and>
   (\<not> is_defined CUPS_HAS_VISIBILITY e \<longrightarrow>
      CUPS_PUBLIC e = [] \<and> CUPS_PRIVATE e = [] \<and>
      expand e (CUPS_PUBLIC e) = [] \<and> expand e (CUPS_PRIVATE e) = [])"
proof -
  have arm: "visibility_arm e \<noteq> Arm_declspec"
    by (simp add: visibility_arm_def)
  have "CUPS_PUBLIC e = [] \<and> CUPS_PRIVATE e = []"
    if "\<not> is_defined CUPS_HAS_VISIBILITY e"
    using that by (simp add: CUPS_PUBLIC_def CUPS_PRIVATE_def visibility_arm_def)
  moreover have "expand e [] = []"
    by (simp add: expand_defs)
  ultimately show ?thesis using arm by simp
qed

theorem C3_no_export_marker_witness:
  "\<not> is_defined CUPS_HAS_VISIBILITY (win32_toolchain \<lparr> LIBCUPS2_EXPORTS := True \<rparr>) \<and>
   visibility_arm (win32_toolchain \<lparr> LIBCUPS2_EXPORTS := True \<rparr>) \<noteq> Arm_declspec \<and>
   CUPS_PUBLIC (win32_toolchain \<lparr> LIBCUPS2_EXPORTS := True \<rparr>) = [] \<and>
   CUPS_PRIVATE (win32_toolchain \<lparr> LIBCUPS2_EXPORTS := True \<rparr>) = []"
  using C3_no_export_marker [of "win32_toolchain \<lparr> LIBCUPS2_EXPORTS := True \<rparr>"]
  by (simp add: is_defined_simps toolchain_defs)

text \<open>
  C3 as it was stated fails: on Win32 without attribute support, with
  \<^verbatim>\<open>LIBCUPS2_EXPORTS\<close> defined, neither macro is \<^verbatim>\<open>__declspec(dllexport)\<close>.
\<close>

theorem C3_export_marker_counterexample:
  "WIN32 (win32_toolchain \<lparr> LIBCUPS2_EXPORTS := True \<rparr>) \<and>
   LIBCUPS2_EXPORTS (win32_toolchain \<lparr> LIBCUPS2_EXPORTS := True \<rparr>) \<and>
   \<not> is_defined CUPS_HAS_VISIBILITY (win32_toolchain \<lparr> LIBCUPS2_EXPORTS := True \<rparr>) \<and>
   CUPS_PUBLIC (win32_toolchain \<lparr> LIBCUPS2_EXPORTS := True \<rparr>) \<noteq> [Declspec_dllexport] \<and>
   CUPS_PRIVATE (win32_toolchain \<lparr> LIBCUPS2_EXPORTS := True \<rparr>) \<noteq> [Declspec_dllexport]"
  by (simp add: is_defined_simps macro_defs toolchain_defs)

section \<open>Deprecated, without a message\<close>

text \<open>
  C4, as amended. \<^verbatim>\<open>_CUPS_DEPRECATED\<close> is the Public marker alone if
  \<^verbatim>\<open>_CUPS_HAS_DEPRECATED\<close> is not defined, or \<^verbatim>\<open>_CUPS_SOURCE\<close> is defined and
  \<^verbatim>\<open>_CUPS_NO_DEPRECATED\<close> is not. Otherwise it is the unavailable attribute followed
  by the Public marker when \<^verbatim>\<open>_CUPS_NO_DEPRECATED\<close> is defined together with
  \<^verbatim>\<open>__APPLE__\<close> or \<^verbatim>\<open>_CUPS_HAS_UNAVAILABLE_WITH_MESSAGE\<close>, and the deprecated
  attribute followed by the Public marker in every remaining case.
\<close>

theorem C4_deprecated_cases:
  "CUPS_DEPRECATED e =
    (if \<not> is_defined CUPS_HAS_DEPRECATED e \<or> (CUPS_SOURCE e \<and> \<not> CUPS_NO_DEPRECATED e)
       then [Macro_PUBLIC]
     else if CUPS_NO_DEPRECATED e \<and>
         (APPLE e \<or> is_defined CUPS_HAS_UNAVAILABLE_WITH_MESSAGE e)
       then [Attribute Unavailable, Macro_PUBLIC]
     else [Attribute Deprecated, Macro_PUBLIC])"
  by (auto simp: CUPS_DEPRECATED_def deprecated_arm_def)

theorem C4_deprecated_cases_witness:
  "CUPS_DEPRECATED unknown_toolchain = [Macro_PUBLIC] \<and>
   CUPS_DEPRECATED (clang_toolchain \<lparr> CUPS_SOURCE := True \<rparr>) = [Macro_PUBLIC] \<and>
   CUPS_DEPRECATED (clang_toolchain \<lparr> CUPS_NO_DEPRECATED := True \<rparr>)
     = [Attribute Unavailable, Macro_PUBLIC] \<and>
   CUPS_DEPRECATED (gcc_toolchain 4 3) = [Attribute Deprecated, Macro_PUBLIC]"
  using C4_deprecated_cases [of unknown_toolchain]
    C4_deprecated_cases [of "clang_toolchain \<lparr> CUPS_SOURCE := True \<rparr>"]
    C4_deprecated_cases [of "clang_toolchain \<lparr> CUPS_NO_DEPRECATED := True \<rparr>"]
    C4_deprecated_cases [of "gcc_toolchain 4 3"]
  by (simp add: is_defined_simps toolchain_defs)

text \<open>
  C4 as it was stated fails: with \<^verbatim>\<open>_CUPS_HAS_DEPRECATED\<close> and
  \<^verbatim>\<open>_CUPS_HAS_UNAVAILABLE_WITH_MESSAGE\<close> defined, \<^verbatim>\<open>_CUPS_NO_DEPRECATED\<close> defined and
  \<^verbatim>\<open>_CUPS_SOURCE\<close> not, line 115 gives the unavailable attribute, not the deprecated
  one.
\<close>

theorem C4_deprecated_counterexample:
  "is_defined CUPS_HAS_DEPRECATED (clang_toolchain \<lparr> CUPS_NO_DEPRECATED := True \<rparr>) \<and>
   \<not> CUPS_SOURCE (clang_toolchain \<lparr> CUPS_NO_DEPRECATED := True \<rparr>) \<and>
   CUPS_DEPRECATED (clang_toolchain \<lparr> CUPS_NO_DEPRECATED := True \<rparr>)
     \<noteq> [Macro_PUBLIC] \<and>
   CUPS_DEPRECATED (clang_toolchain \<lparr> CUPS_NO_DEPRECATED := True \<rparr>)
     \<noteq> [Attribute Deprecated, Macro_PUBLIC] \<and>
   expand (clang_toolchain \<lparr> CUPS_NO_DEPRECATED := True \<rparr>)
       (CUPS_DEPRECATED (clang_toolchain \<lparr> CUPS_NO_DEPRECATED := True \<rparr>))
     = [Attribute Unavailable, Attribute (Visibility ''default'')]"
  by (simp add: is_defined_simps macro_defs expand_defs toolchain_defs)

section \<open>Deprecated, with a message\<close>

text \<open>
  C5. When \<^verbatim>\<open>__APPLE__\<close> and \<^verbatim>\<open>_CUPS_NO_DEPRECATED\<close> are both defined and
  \<^verbatim>\<open>_CUPS_HAS_DEPRECATED\<close> is defined, the arm of line 103 is the one taken, whether
  or not \<^verbatim>\<open>_CUPS_HAS_UNAVAILABLE_WITH_MESSAGE\<close> is defined (the arm of line 113 comes
  later) and whether or not \<^verbatim>\<open>_CUPS_SOURCE\<close> is defined (with
  \<^verbatim>\<open>_CUPS_NO_DEPRECATED\<close> the own-source guard of line 99 is off). Then
  \<^verbatim>\<open>_CUPS_DEPRECATED_MSG(m)\<close> is the unavailable attribute carrying \<open>m\<close>, followed by
  the Public marker, which expands to the default visibility attribute.
\<close>

theorem C5_apple_unavailable:
  assumes "APPLE e" and "CUPS_NO_DEPRECATED e" and "is_defined CUPS_HAS_DEPRECATED e"
  shows "deprecated_arm e = Arm_103 \<and>
    CUPS_DEPRECATED_MSG e m = [Attribute (Unavailable_msg m), Macro_PUBLIC] \<and>
    expand e (CUPS_DEPRECATED_MSG e m)
      = [Attribute (Unavailable_msg m), Attribute (Visibility ''default'')]"
proof -
  have arm: "deprecated_arm e = Arm_103"
    using assms by (simp add: deprecated_arm_def)
  then have body: "CUPS_DEPRECATED_MSG e m = [Attribute (Unavailable_msg m), Macro_PUBLIC]"
    by (simp add: CUPS_DEPRECATED_MSG_def)
  have keep: "\<not> is_defined ATTRIBUTE_NOTHING e"
    using assms(3) by (rule capability_keeps_attribute) simp
  have "is_defined CUPS_HAS_VISIBILITY e"
    using assms(3) by (simp add: is_defined_base)
  then have "CUPS_PUBLIC e = [Attribute (Visibility ''default'')]"
    by (simp add: CUPS_PUBLIC_def visibility_arm_def)
  with keep body
  have "expand e (CUPS_DEPRECATED_MSG e m)
      = [Attribute (Unavailable_msg m), Attribute (Visibility ''default'')]"
    by (simp add: expand_defs)
  with arm body show ?thesis by simp
qed

theorem C5_apple_unavailable_witness:
  "APPLE (clang_toolchain \<lparr> APPLE := True, CUPS_NO_DEPRECATED := True \<rparr>) \<and>
   CUPS_NO_DEPRECATED (clang_toolchain \<lparr> APPLE := True, CUPS_NO_DEPRECATED := True \<rparr>) \<and>
   is_defined CUPS_HAS_DEPRECATED
     (clang_toolchain \<lparr> APPLE := True, CUPS_NO_DEPRECATED := True \<rparr>) \<and>
   is_defined CUPS_HAS_UNAVAILABLE_WITH_MESSAGE
     (clang_toolchain \<lparr> APPLE := True, CUPS_NO_DEPRECATED := True \<rparr>) \<and>
   deprecated_arm (clang_toolchain \<lparr> APPLE := True, CUPS_NO_DEPRECATED := True \<rparr>) = Arm_103 \<and>
   CUPS_DEPRECATED_MSG (clang_toolchain \<lparr> APPLE := True, CUPS_NO_DEPRECATED := True \<rparr>)
       ''use X''
     = [Attribute (Unavailable_msg ''use X''), Macro_PUBLIC] \<and>
   expand (clang_toolchain \<lparr> APPLE := True, CUPS_NO_DEPRECATED := True \<rparr>)
       (CUPS_DEPRECATED_MSG (clang_toolchain \<lparr> APPLE := True, CUPS_NO_DEPRECATED := True \<rparr>)
          ''use X'')
     = [Attribute (Unavailable_msg ''use X''), Attribute (Visibility ''default'')]"
proof -
  let ?e = "clang_toolchain \<lparr> APPLE := True, CUPS_NO_DEPRECATED := True \<rparr>"
  have a: "APPLE ?e" and n: "CUPS_NO_DEPRECATED ?e"
    by simp_all
  have d: "is_defined CUPS_HAS_DEPRECATED ?e"
    and u: "is_defined CUPS_HAS_UNAVAILABLE_WITH_MESSAGE ?e"
    by (simp_all add: is_defined_simps toolchain_defs)
  from C5_apple_unavailable [OF a n d, of "''use X''"] a n d u show ?thesis
    by blast
qed

section \<open>The GCC arm of the detector\<close>

text \<open>
  C6. Where \<^verbatim>\<open>__has_extension\<close> is not defined and \<^verbatim>\<open>__GNUC__\<close> is defined with
  the value \<open>major\<close>: each of the four base capabilities is defined exactly when
  \<open>3 \<le> major\<close>; \<^verbatim>\<open>_CUPS_HAS_DEPRECATED_WITH_MESSAGE\<close> is defined exactly when
  \<open>5 \<le> major\<close>, or \<open>major = 4\<close> and the value of \<^verbatim>\<open>__GNUC_MINOR__\<close> is at least 5.
  With version 4.3, \<^verbatim>\<open>__APPLE__\<close> and \<^verbatim>\<open>_CUPS_SOURCE\<close> not defined,
  \<^verbatim>\<open>_CUPS_DEPRECATED_MSG(m)\<close> is the deprecated attribute without the message,
  followed by the Public marker, which expands to the default visibility attribute.
\<close>

theorem C6_gcc_versions:
  assumes "\<not> has_extension e" and "GNUC e = Some major"
  shows "is_defined CUPS_HAS_DEPRECATED e = (3 \<le> major) \<and>
    is_defined CUPS_HAS_FORMAT e = (3 \<le> major) \<and>
    is_defined CUPS_HAS_NORETURN e = (3 \<le> major) \<and>
    is_defined CUPS_HAS_VISIBILITY e = (3 \<le> major) \<and>
    is_defined CUPS_HAS_DEPRECATED_WITH_MESSAGE e =
      (5 \<le> major \<or> (major = 4 \<and> 5 \<le> cpp_value (GNUC_MINOR e))) \<and>
    (major = 4 \<and> GNUC_MINOR e = Some 3 \<and> \<not> APPLE e \<and> \<not> CUPS_SOURCE e \<longrightarrow>
       CUPS_DEPRECATED_MSG e m = [Attribute Deprecated, Macro_PUBLIC] \<and>
       expand e (CUPS_DEPRECATED_MSG e m)
         = [Attribute Deprecated, Attribute (Visibility ''default'')])"
proof -
  have flags: "is_defined CUPS_HAS_DEPRECATED e = (3 \<le> major)"
      "is_defined CUPS_HAS_FORMAT e = (3 \<le> major)"
      "is_defined CUPS_HAS_NORETURN e = (3 \<le> major)"
      "is_defined CUPS_HAS_VISIBILITY e = (3 \<le> major)"
    using assms by (simp_all add: is_defined_base)
  have msg: "is_defined CUPS_HAS_DEPRECATED_WITH_MESSAGE e =
      (5 \<le> major \<or> (major = 4 \<and> 5 \<le> cpp_value (GNUC_MINOR e)))"
    using assms by (simp add: is_defined_DEPRECATED_WITH_MESSAGE)
  have una: "\<not> is_defined CUPS_HAS_UNAVAILABLE_WITH_MESSAGE e"
    using assms by (simp add: is_defined_UNAVAILABLE_WITH_MESSAGE)
  have att: "\<not> is_defined ATTRIBUTE_NOTHING e"
    using assms by (simp add: is_defined_ATTRIBUTE_NOTHING)
  have "CUPS_DEPRECATED_MSG e m = [Attribute Deprecated, Macro_PUBLIC] \<and>
      expand e (CUPS_DEPRECATED_MSG e m)
        = [Attribute Deprecated, Attribute (Visibility ''default'')]"
    if v: "major = 4" "GNUC_MINOR e = Some 3" and sw: "\<not> APPLE e" "\<not> CUPS_SOURCE e"
  proof -
    from v flags have "is_defined CUPS_HAS_DEPRECATED e" "is_defined CUPS_HAS_VISIBILITY e"
      by simp_all
    moreover from v msg have "\<not> is_defined CUPS_HAS_DEPRECATED_WITH_MESSAGE e"
      by simp
    ultimately show ?thesis
      using una att sw
      by (simp add: CUPS_DEPRECATED_MSG_def deprecated_arm_def CUPS_PUBLIC_def
          visibility_arm_def expand_defs)
  qed
  with flags msg show ?thesis by blast
qed

theorem C6_gcc_versions_witness:
  "\<not> has_extension (gcc_toolchain 4 3) \<and> GNUC (gcc_toolchain 4 3) = Some 4 \<and>
   GNUC_MINOR (gcc_toolchain 4 3) = Some 3 \<and>
   \<not> APPLE (gcc_toolchain 4 3) \<and> \<not> CUPS_SOURCE (gcc_toolchain 4 3) \<and>
   is_defined CUPS_HAS_DEPRECATED (gcc_toolchain 4 3) \<and>
   is_defined CUPS_HAS_FORMAT (gcc_toolchain 4 3) \<and>
   is_defined CUPS_HAS_NORETURN (gcc_toolchain 4 3) \<and>
   is_defined CUPS_HAS_VISIBILITY (gcc_toolchain 4 3) \<and>
   \<not> is_defined CUPS_HAS_DEPRECATED_WITH_MESSAGE (gcc_toolchain 4 3) \<and>
   CUPS_DEPRECATED_MSG (gcc_toolchain 4 3) ''use X'' = [Attribute Deprecated, Macro_PUBLIC] \<and>
   expand (gcc_toolchain 4 3) (CUPS_DEPRECATED_MSG (gcc_toolchain 4 3) ''use X'')
     = [Attribute Deprecated, Attribute (Visibility ''default'')]"
proof -
  have env: "\<not> has_extension (gcc_toolchain 4 3)" "GNUC (gcc_toolchain 4 3) = Some 4"
      "GNUC_MINOR (gcc_toolchain 4 3) = Some 3"
      "\<not> APPLE (gcc_toolchain 4 3)" "\<not> CUPS_SOURCE (gcc_toolchain 4 3)"
    by (simp_all add: toolchain_defs)
  note t = C6_gcc_versions [OF env(1) env(2), of "''use X''"]
  have flags: "is_defined CUPS_HAS_DEPRECATED (gcc_toolchain 4 3)"
      "is_defined CUPS_HAS_FORMAT (gcc_toolchain 4 3)"
      "is_defined CUPS_HAS_NORETURN (gcc_toolchain 4 3)"
      "is_defined CUPS_HAS_VISIBILITY (gcc_toolchain 4 3)"
      "\<not> is_defined CUPS_HAS_DEPRECATED_WITH_MESSAGE (gcc_toolchain 4 3)"
    using t env(3) by simp_all
  have "CUPS_DEPRECATED_MSG (gcc_toolchain 4 3) ''use X''
        = [Attribute Deprecated, Macro_PUBLIC] \<and>
      expand (gcc_toolchain 4 3) (CUPS_DEPRECATED_MSG (gcc_toolchain 4 3) ''use X'')
        = [Attribute Deprecated, Attribute (Visibility ''default'')]"
    using t env by blast
  with env flags show ?thesis by blast
qed

section \<open>Private and Public\<close>

text \<open>
  C7. In every environment \<^verbatim>\<open>_CUPS_PRIVATE\<close> and \<^verbatim>\<open>_CUPS_PUBLIC\<close> have the same
  replacement list and the same expansion; there is an environment in which
  \<^verbatim>\<open>_CUPS_INTERNAL\<close> differs from them.
\<close>

theorem C7_private_is_public:
  "CUPS_PRIVATE e = CUPS_PUBLIC e \<and>
   expand e (CUPS_PRIVATE e) = expand e (CUPS_PUBLIC e) \<and>
   (\<exists>e'. CUPS_INTERNAL e' \<noteq> CUPS_PUBLIC e' \<and>
      expand e' (CUPS_INTERNAL e') \<noteq> expand e' (CUPS_PUBLIC e'))"
proof -
  have same: "CUPS_PRIVATE e = CUPS_PUBLIC e"
    by (simp add: CUPS_PRIVATE_def CUPS_PUBLIC_def)
  have "CUPS_INTERNAL clang_toolchain \<noteq> CUPS_PUBLIC clang_toolchain \<and>
      expand clang_toolchain (CUPS_INTERNAL clang_toolchain)
        \<noteq> expand clang_toolchain (CUPS_PUBLIC clang_toolchain)"
    by (simp add: is_defined_simps macro_defs expand_defs toolchain_defs)
  then show ?thesis using same by (simp only: simp_thms) (rule exI)
qed

theorem C7_private_is_public_witness:
  "CUPS_PRIVATE (gcc_toolchain 12 2) = [Attribute (Visibility ''default'')] \<and>
   CUPS_PUBLIC (gcc_toolchain 12 2) = [Attribute (Visibility ''default'')] \<and>
   CUPS_PRIVATE unknown_toolchain = CUPS_PUBLIC unknown_toolchain"
  using C7_private_is_public [of "gcc_toolchain 12 2"]
    C7_private_is_public [of unknown_toolchain]
  by (simp add: is_defined_simps CUPS_PUBLIC_def visibility_arm_def toolchain_defs)

section \<open>Format checking\<close>

text \<open>
  C8. \<^verbatim>\<open>_CUPS_FORMAT(a,b)\<close> is the attribute
  \<^verbatim>\<open>__format__(__printf__, a,b)\<close> with the two positions as given if
  \<^verbatim>\<open>_CUPS_HAS_FORMAT\<close> is defined, and empty if not; the expansion is the same
  sequence. On the unknown toolchain it is empty.
\<close>

theorem C8_format:
  "CUPS_FORMAT e a b =
     (if is_defined CUPS_HAS_FORMAT e then [Attribute (Format_printf a b)] else []) \<and>
   expand e (CUPS_FORMAT e a b) = CUPS_FORMAT e a b \<and>
   \<not> is_defined CUPS_HAS_FORMAT unknown_toolchain \<and>
   expand unknown_toolchain (CUPS_FORMAT unknown_toolchain a b) = []"
proof -
  have "expand e (CUPS_FORMAT e a b) = CUPS_FORMAT e a b"
  proof (cases "is_defined CUPS_HAS_FORMAT e")
    case True
    then have "\<not> is_defined ATTRIBUTE_NOTHING e"
      by (rule capability_keeps_attribute) simp
    then show ?thesis
      by (rule expand_without_PUBLIC) (simp add: CUPS_FORMAT_def)
  next
    case False
    then show ?thesis by (simp add: CUPS_FORMAT_def expand_defs)
  qed
  moreover have "\<not> is_defined CUPS_HAS_FORMAT unknown_toolchain"
    by (simp add: is_defined_base toolchain_defs)
  moreover from this
  have "expand unknown_toolchain (CUPS_FORMAT unknown_toolchain a b) = []"
    by (simp add: CUPS_FORMAT_def expand_defs)
  ultimately show ?thesis by (simp add: CUPS_FORMAT_def)
qed

theorem C8_format_witness:
  "CUPS_FORMAT clang_toolchain 2 3 = [Attribute (Format_printf 2 3)] \<and>
   expand clang_toolchain (CUPS_FORMAT clang_toolchain 2 3) = [Attribute (Format_printf 2 3)] \<and>
   CUPS_FORMAT unknown_toolchain 2 3 = [] \<and>
   expand unknown_toolchain (CUPS_FORMAT unknown_toolchain 2 3) = []"
proof -
  note t1 = C8_format [of clang_toolchain 2 3] and t2 = C8_format [of unknown_toolchain 2 3]
  have "is_defined CUPS_HAS_FORMAT clang_toolchain"
    by (simp add: is_defined_base toolchain_defs)
  with t1 have b1: "CUPS_FORMAT clang_toolchain 2 3 = [Attribute (Format_printf 2 3)]"
    by simp
  have "expand clang_toolchain (CUPS_FORMAT clang_toolchain 2 3)
      = CUPS_FORMAT clang_toolchain 2 3"
    using t1 by blast
  from this b1
  have x1: "expand clang_toolchain (CUPS_FORMAT clang_toolchain 2 3)
      = [Attribute (Format_printf 2 3)]"
    by (rule trans)
  have b2: "CUPS_FORMAT unknown_toolchain 2 3 = []"
    using t2 by simp
  have x2: "expand unknown_toolchain (CUPS_FORMAT unknown_toolchain 2 3) = []"
    using t2 by blast
  from b1 x1 b2 x2 show ?thesis by blast
qed

section \<open>Non-null arguments\<close>

text \<open>
  C9. No line of the detector defines \<^verbatim>\<open>_CUPS_HAS_NONNULL\<close>: in every environment it
  is absent from the names defined, and \<^verbatim>\<open>_CUPS_NONNULL(...)\<close> is empty for every
  list of positions, as is its expansion.
\<close>

theorem C9_nonnull_never:
  "CUPS_HAS_NONNULL \<notin> set (detect e) \<and> \<not> is_defined CUPS_HAS_NONNULL e \<and>
   CUPS_NONNULL e args = [] \<and> expand e (CUPS_NONNULL e args) = []"
proof -
  have "CUPS_HAS_NONNULL \<notin> set (detect e)"
    by (simp add: detect_def)
  then have off: "\<not> is_defined CUPS_HAS_NONNULL e"
    by (simp add: is_defined_def)
  then have "CUPS_NONNULL e args = []"
    by (simp add: CUPS_NONNULL_def)
  then show ?thesis using off by (simp add: is_defined_def expand_defs)
qed

theorem C9_nonnull_never_witness:
  "CUPS_NONNULL clang_toolchain [1, 3] = [] \<and> CUPS_NONNULL (gcc_toolchain 12 2) [1, 3] = [] \<and>
   CUPS_NONNULL win32_toolchain [1, 3] = [] \<and> CUPS_NONNULL unknown_toolchain [1, 3] = []"
  using C9_nonnull_never [of clang_toolchain "[1, 3]"]
    C9_nonnull_never [of "gcc_toolchain 12 2" "[1, 3]"]
    C9_nonnull_never [of win32_toolchain "[1, 3]"]
    C9_nonnull_never [of unknown_toolchain "[1, 3]"]
  by simp

section \<open>The compiler of the Win32 platform\<close>

text \<open>
  C10. Where \<^verbatim>\<open>_WIN32\<close> is defined and neither \<^verbatim>\<open>__has_extension\<close> nor
  \<^verbatim>\<open>__GNUC__\<close> is, line 66 makes \<^verbatim>\<open>__attribute__\<close> a macro that expands to
  nothing. Then no attribute is left in the expansion of any sequence; a sequence of
  attributes expands to nothing; \<^verbatim>\<open>_CUPS_INTERNAL_MSG(m)\<close>, which outside the
  library's own source is still the deprecated attribute followed by the Public marker,
  expands to nothing, as do the other directives; and \<^verbatim>\<open>_CUPS_INTERNAL\<close>,
  \<^verbatim>\<open>_CUPS_PRIVATE\<close> and \<^verbatim>\<open>_CUPS_PUBLIC\<close> are empty.
\<close>

theorem C10_win32_attribute_nothing:
  assumes "WIN32 e" and "\<not> has_extension e" and "GNUC e = None"
  shows "is_defined ATTRIBUTE_NOTHING e \<and>
    filter is_attribute (expand e ts) = [] \<and>
    expand e (map Attribute as) = [] \<and>
    (\<not> CUPS_SOURCE e \<longrightarrow> CUPS_INTERNAL_MSG e m = [Attribute Deprecated, Macro_PUBLIC]) \<and>
    expand e (CUPS_INTERNAL_MSG e m) = [] \<and>
    expand e (CUPS_DEPRECATED e) = [] \<and>
    expand e (CUPS_DEPRECATED_MSG e m) = [] \<and>
    expand e (CUPS_FORMAT e a b) = [] \<and>
    expand e (CUPS_NONNULL e args) = [] \<and>
    expand e (CUPS_NORETURN e) = [] \<and>
    CUPS_INTERNAL e = [] \<and> CUPS_PRIVATE e = [] \<and> CUPS_PUBLIC e = []"
proof -
  have att: "is_defined ATTRIBUTE_NOTHING e"
    using assms by (simp add: is_defined_ATTRIBUTE_NOTHING)
  have none: "\<not> is_defined CUPS_HAS_DEPRECATED e" "\<not> is_defined CUPS_HAS_FORMAT e"
      "\<not> is_defined CUPS_HAS_NORETURN e" "\<not> is_defined CUPS_HAS_VISIBILITY e"
      "\<not> is_defined CUPS_HAS_DEPRECATED_WITH_MESSAGE e"
      "\<not> is_defined CUPS_HAS_UNAVAILABLE_WITH_MESSAGE e"
      "\<not> is_defined CUPS_HAS_NONNULL e"
    using assms by (simp_all add: is_defined_simps)
  have vis: "CUPS_INTERNAL e = []" "CUPS_PRIVATE e = []" "CUPS_PUBLIC e = []"
    using none(4) by (simp_all add: CUPS_INTERNAL_def CUPS_PRIVATE_def CUPS_PUBLIC_def
        visibility_arm_def)
  have attrs: "expand e (map Attribute as) = []"
    using att by (induction as) (simp_all add: expand_defs)
  have internal: "CUPS_INTERNAL_MSG e m = [Attribute Deprecated, Macro_PUBLIC]"
    if "\<not> CUPS_SOURCE e"
    using that none by (simp add: CUPS_INTERNAL_MSG_def)
  have "expand e (CUPS_INTERNAL_MSG e m) = []"
    using att none vis(3) by (simp add: CUPS_INTERNAL_MSG_def expand_defs)
  moreover have "expand e (CUPS_DEPRECATED e) = []" "expand e (CUPS_DEPRECATED_MSG e m) = []"
    using att vis(3) deprecated_without_capability [OF none(1)]
    by (simp_all add: expand_defs)
  moreover have "expand e (CUPS_FORMAT e a b) = []" "expand e (CUPS_NONNULL e args) = []"
      "expand e (CUPS_NORETURN e) = []"
    using none by (simp_all add: CUPS_FORMAT_def CUPS_NONNULL_def CUPS_NORETURN_def expand_defs)
  ultimately show ?thesis
    using att expand_ATTRIBUTE_NOTHING [OF att] attrs internal vis by simp
qed

theorem C10_win32_attribute_nothing_witness:
  "WIN32 win32_toolchain \<and> \<not> has_extension win32_toolchain \<and> GNUC win32_toolchain = None \<and>
   \<not> CUPS_SOURCE win32_toolchain \<and>
   is_defined ATTRIBUTE_NOTHING win32_toolchain \<and>
   expand win32_toolchain (map Attribute [Noreturn, Format_printf 2 3]) = [] \<and>
   CUPS_INTERNAL_MSG win32_toolchain ''use X'' = [Attribute Deprecated, Macro_PUBLIC] \<and>
   expand win32_toolchain (CUPS_INTERNAL_MSG win32_toolchain ''use X'') = [] \<and>
   CUPS_INTERNAL win32_toolchain = [] \<and> CUPS_PRIVATE win32_toolchain = [] \<and>
   CUPS_PUBLIC win32_toolchain = []"
proof -
  have env: "WIN32 win32_toolchain" "\<not> has_extension win32_toolchain"
      "GNUC win32_toolchain = None" "\<not> CUPS_SOURCE win32_toolchain"
    by (simp_all add: toolchain_defs)
  from C10_win32_attribute_nothing [OF env(1) env(2) env(3),
      of _ "[Noreturn, Format_printf 2 3]" "''use X''"] env
  show ?thesis by blast
qed

end
